theory Spec2Isabelle
  imports Complex_Main "HOL-Library.AList" "HOL-Library.Sublist"
begin

section \<open>Text primitives of the host language\<close>

text \<open>
  The artifact text is a Python \<open>str\<close>. It is modelled as a \<^typ>\<open>string\<close> whose
  characters stand for the code points U+0000 .. U+00FF; ASCII artifacts are the
  special case below 128. The predicates below are Python's own on that range.
\<close>

abbreviation nl :: char where
  "nl \<equiv> CHR 0x0A"

abbreviation dq :: char where
  "dq \<equiv> CHR 0x22"

text \<open>
  \<open>str.isspace\<close>, the separator set of \<open>str.split()\<close> and \<open>str.strip()\<close>, and the
  regular expression class \<open>\s\<close> of a \<open>str\<close> pattern: TAB..CR, FS..US, space, NEL, NBSP.
\<close>

definition is_space :: "char \<Rightarrow> bool" where
  "is_space c =
     (let n = (of_char c :: nat)
      in (9 \<le> n \<and> n \<le> 13) \<or> (28 \<le> n \<and> n \<le> 32) \<or> n = 133 \<or> n = 160)"

definition is_ascii_digit :: "char \<Rightarrow> bool" where
  "is_ascii_digit c = (let n = (of_char c :: nat) in 48 \<le> n \<and> n \<le> 57)"

definition digit_val :: "char \<Rightarrow> nat" where
  "digit_val c = of_char c - 48"

text \<open>
  \<open>str.isdigit\<close>: the string is not empty and every character has the Unicode digit
  property; below U+0100 these are 0..9 and the superscripts two, three and one.
\<close>

definition is_digit_char :: "char \<Rightarrow> bool" where
  "is_digit_char c =
     (let n = (of_char c :: nat) in (48 \<le> n \<and> n \<le> 57) \<or> n = 178 \<or> n = 179 \<or> n = 185)"

definition isdigit :: "string \<Rightarrow> bool" where
  "isdigit s = (s \<noteq> [] \<and> list_all is_digit_char s)"

text \<open>\<open>s.strip()\<close> and \<open>s.strip(chars)\<close> for a single character.\<close>

definition strip_ws :: "string \<Rightarrow> string" where
  "strip_ws s = rev (dropWhile is_space (rev (dropWhile is_space s)))"

definition strip_char :: "char \<Rightarrow> string \<Rightarrow> string" where
  "strip_char q s = rev (dropWhile (\<lambda>c. c = q) (rev (dropWhile (\<lambda>c. c = q) s)))"

text \<open>
  \<open>s.split()\<close>: the maximal runs of non-whitespace characters, in order. The first
  argument is the run read so far.
\<close>

fun py_split :: "string \<Rightarrow> string \<Rightarrow> string list" where
  "py_split cur [] = (if cur = [] then [] else [cur])"
| "py_split cur (c # cs) =
     (if is_space c then (if cur = [] then py_split [] cs else cur # py_split [] cs)
      else py_split (cur @ [c]) cs)"

text \<open>\<open>s.split(sep)\<close> for a single character: every occurrence separates, empty pieces are kept.\<close>

fun split_on :: "char \<Rightarrow> string \<Rightarrow> string \<Rightarrow> string list" where
  "split_on d cur [] = [cur]"
| "split_on d cur (c # cs) =
     (if c = d then cur # split_on d [] cs else split_on d (cur @ [c]) cs)"

text \<open>
  \<open>int(s)\<close> on a string: an optional sign, then decimal digits in which single
  underscores may separate digits. \<open>None\<close> stands for \<open>ValueError\<close>. The interpreter
  refuses a literal of more than \<open>max_str_digits\<close> digits (\<open>sys.set_int_max_str_digits\<close>,
  4300 unless changed, 0 for no limit; the check is skipped up to 640 digits), so the
  limit is a parameter of the model. \<open>int\<close> also strips surrounding whitespace; every
  argument it gets in this program is a piece produced by \<open>split()\<close> or a string that
  passed \<open>isdigit\<close>, which holds none, so the stripping is left out.
\<close>

fun digits_value :: "nat \<Rightarrow> string \<Rightarrow> nat option" where
  "digits_value acc [] = Some acc"
| "digits_value acc (c # cs) =
     (if is_ascii_digit c then digits_value (10 * acc + digit_val c) cs
      else if c = CHR ''_'' then
        (case cs of
           [] \<Rightarrow> None
         | d # ds \<Rightarrow>
             if is_ascii_digit d then digits_value (10 * acc + digit_val d) ds else None)
      else None)"

definition limit_exceeded :: "nat \<Rightarrow> nat \<Rightarrow> bool" where
  "limit_exceeded max_str_digits n = (640 < n \<and> 0 < max_str_digits \<and> max_str_digits < n)"

definition unsigned_value :: "nat \<Rightarrow> string \<Rightarrow> nat option" where
  "unsigned_value max_str_digits s =
     (case s of
        [] \<Rightarrow> None
      | c # cs \<Rightarrow>
          if is_ascii_digit c \<and> \<not> limit_exceeded max_str_digits (length (filter is_ascii_digit s))
          then digits_value (digit_val c) cs
          else None)"

definition py_int :: "nat \<Rightarrow> string \<Rightarrow> int option" where
  "py_int max_str_digits s =
     (case s of
        [] \<Rightarrow> None
      | c # cs \<Rightarrow>
          if c = CHR ''-'' then map_option (\<lambda>n. - int n) (unsigned_value max_str_digits cs)
          else if c = CHR ''+'' then map_option int (unsigned_value max_str_digits cs)
          else map_option int (unsigned_value max_str_digits s))"

section \<open>The two regular expressions, as backtracking matchers\<close>

text \<open>
  Each pattern element is a matcher that takes the rest of the pattern as a
  continuation, which is how the backtracking engine of \<open>re\<close> tries alternatives:
  a greedy element tries the longest match first, a lazy one the shortest.
\<close>

text \<open>A literal: the text must start with it; the result is what follows.\<close>

fun lit :: "string \<Rightarrow> string \<Rightarrow> string option" where
  "lit [] s = Some s"
| "lit (p # ps) [] = None"
| "lit (p # ps) (c # cs) = (if p = c then lit ps cs else None)"

text \<open>\<open>\s*\<close>, greedy: take one more whitespace character if the rest can still match.\<close>

fun ws_star :: "(string \<Rightarrow> 'a option) \<Rightarrow> string \<Rightarrow> 'a option" where
  "ws_star k [] = k []"
| "ws_star k (c # cs) =
     (if is_space c then (case ws_star k cs of Some r \<Rightarrow> Some r | None \<Rightarrow> k (c # cs))
      else k (c # cs))"

text \<open>\<open>\n\<close>.\<close>

fun newline :: "(string \<Rightarrow> 'a option) \<Rightarrow> string \<Rightarrow> 'a option" where
  "newline k [] = None"
| "newline k (c # cs) = (if c = nl then k cs else None)"

text \<open>
  \<open>(.*?)\<close>, lazy, followed by the literal \<open>stop\<close>. With \<open>re.DOTALL\<close> the dot takes
  any character, without it any character but the newline. The result is the group.
\<close>

fun lazy_group :: "bool \<Rightarrow> string \<Rightarrow> string \<Rightarrow> string \<Rightarrow> string option" where
  "lazy_group dotall stop acc [] = (if stop = [] then Some acc else None)"
| "lazy_group dotall stop acc (c # cs) =
     (case lit stop (c # cs) of
        Some r \<Rightarrow> Some acc
      | None \<Rightarrow> if dotall \<or> c \<noteq> nl then lazy_group dotall stop (acc @ [c]) cs else None)"

text \<open>\<open>re.search\<close>: the first position, from the left, at which the pattern matches.\<close>

fun re_search :: "(string \<Rightarrow> 'a option) \<Rightarrow> string \<Rightarrow> 'a option" where
  "re_search m [] = m []"
| "re_search m (c # cs) = (case m (c # cs) of Some r \<Rightarrow> Some r | None \<Rightarrow> re_search m cs)"

text \<open>
  \<open>r'\$PhysicalNames\s*\n(.*?)\$EndPhysicalNames'\<close> with \<open>re.DOTALL\<close>, anchored; the
  result is \<open>group(1)\<close>.
\<close>

definition physical_names_at :: "string \<Rightarrow> string option" where
  "physical_names_at s =
     (case lit ''$PhysicalNames'' s of
        None \<Rightarrow> None
      | Some r \<Rightarrow> ws_star (newline (lazy_group True ''$EndPhysicalNames'' [])) r)"

text \<open>
  \<open>r'\$Nodes\s*\n(.*?)\n'\<close> and \<open>r'\$Elements\s*\n(.*?)\n'\<close>, anchored, the section
  marker being the parameter; the result is \<open>group(1)\<close>.
\<close>

definition header_at :: "string \<Rightarrow> string \<Rightarrow> string option" where
  "header_at marker s =
     (case lit marker s of
        None \<Rightarrow> None
      | Some r \<Rightarrow> ws_star (newline (lazy_group False [nl] [])) r)"

section \<open>Mesh statistics extraction\<close>

record group_info =
  dimension :: int
  tag :: int

text \<open>
  The statistics dictionary. The physical groups are a Python \<open>dict\<close>: an association
  list in insertion order, in which assigning to a key that is present replaces its
  value in place (\<^const>\<open>AList.update\<close>).
\<close>

record mesh_stats =
  physical_groups :: "(string \<times> group_info) list"
  num_vertices :: int
  num_elements :: int

definition default_stats :: mesh_stats where
  "default_stats = \<lparr>physical_groups = [], num_vertices = 0, num_elements = 0\<rparr>"

text \<open>How a block of statements ends: it runs through, or a statement raises.\<close>

datatype outcome = Normal | Raised

text \<open>
  The loop over the records of the section. A line of fewer than three pieces is
  skipped; otherwise both \<open>int\<close> conversions run before the entry is stored, and a
  failing one leaves the loop with the entries stored so far.
\<close>

fun read_records ::
  "nat \<Rightarrow> string list \<Rightarrow> (string \<times> group_info) list \<Rightarrow> outcome \<times> (string \<times> group_info) list"
where
  "read_records L [] groups = (Normal, groups)"
| "read_records L (line # rest) groups =
     (let parts = py_split [] line in
      if 3 \<le> length parts then
        (let group_name = strip_char dq (parts ! 2) in
         case py_int L (parts ! 0) of
           None \<Rightarrow> (Raised, groups)
         | Some d \<Rightarrow>
             (case py_int L (parts ! 1) of
                None \<Rightarrow> (Raised, groups)
              | Some t \<Rightarrow>
                  read_records L rest
                    (AList.update group_name \<lparr>dimension = d, tag = t\<rparr> groups)))
      else read_records L rest groups)"

text \<open>
  The block "Extract physical groups". \<open>lines\<close> is never empty, as \<open>split\<close> returns
  at least one piece; the indices are those of \<open>range(1, min(num_groups + 1, len(lines)))\<close>.
\<close>

definition extract_physical_groups ::
  "nat \<Rightarrow> string \<Rightarrow> (string \<times> group_info) list \<Rightarrow> outcome \<times> (string \<times> group_info) list"
where
  "extract_physical_groups L content groups =
     (case re_search physical_names_at content of
        None \<Rightarrow> (Normal, groups)
      | Some body \<Rightarrow>
          (let lines = split_on nl [] (strip_ws body) in
           if lines \<noteq> [] \<and> isdigit (hd lines) then
             (case py_int L (hd lines) of
                None \<Rightarrow> (Raised, groups)
              | Some num_groups \<Rightarrow>
                  read_records L
                    (map (\<lambda>i. lines ! i)
                       [1 ..< nat (min (num_groups + 1) (int (length lines)))])
                    groups)
           else (Normal, groups)))"

text \<open>
  The blocks "Extract vertex count" and "Extract element count" are the same
  statements on two section markers: the fourth piece of the header line, when there
  are four, converted by \<open>int\<close>. \<open>None\<close> is "no assignment made".
\<close>

definition header_total :: "nat \<Rightarrow> string \<Rightarrow> string \<Rightarrow> outcome \<times> int option" where
  "header_total L marker content =
     (case re_search (header_at marker) content of
        None \<Rightarrow> (Normal, None)
      | Some h \<Rightarrow>
          (let header = py_split [] (strip_ws h) in
           if 4 \<le> length header then
             (case py_int L (header ! 3) of
                None \<Rightarrow> (Raised, None)
              | Some n \<Rightarrow> (Normal, Some n))
           else (Normal, None)))"

text \<open>
  The body of the \<open>try\<close> statement after the file has been read: the three blocks in
  order, each working on the dictionary the previous one left. A raise ends the body
  at once and keeps what has been stored.
\<close>

definition try_body :: "nat \<Rightarrow> string \<Rightarrow> mesh_stats \<Rightarrow> outcome \<times> mesh_stats" where
  "try_body L content stats =
     (case extract_physical_groups L content (physical_groups stats) of
        (Raised, g) \<Rightarrow> (Raised, stats\<lparr>physical_groups := g\<rparr>)
      | (Normal, g) \<Rightarrow>
          (let stats1 = stats\<lparr>physical_groups := g\<rparr> in
           case header_total L ''$Nodes'' content of
             (Raised, _) \<Rightarrow> (Raised, stats1)
           | (Normal, v) \<Rightarrow>
               (let stats2 = (case v of None \<Rightarrow> stats1 | Some n \<Rightarrow> stats1\<lparr>num_vertices := n\<rparr>) in
                case header_total L ''$Elements'' content of
                  (Raised, _) \<Rightarrow> (Raised, stats2)
                | (Normal, e) \<Rightarrow>
                    (Normal, case e of None \<Rightarrow> stats2 | Some n \<Rightarrow> stats2\<lparr>num_elements := n\<rparr>))))"

text \<open>
  \<open>_extract_mesh_statistics\<close>. The file is the text it holds, or \<open>None\<close> when opening
  or reading it raises. \<open>except Exception: pass\<close> drops the exception, and the
  function returns the dictionary as it stands.
\<close>

definition extract_mesh_statistics :: "nat \<Rightarrow> string option \<Rightarrow> mesh_stats" where
  "extract_mesh_statistics L file =
     (case file of
        None \<Rightarrow> default_stats
      | Some content \<Rightarrow> snd (try_body L content default_stats))"

section \<open>Input validation, mesh creation and the fluent builder\<close>

text \<open>
  Numbers given by the caller (mesh length, radius, thicknesses) are Python floats or
  ints; the program only compares them with 0, so they are modelled as reals. The
  exceptions the program raises carry their message.
\<close>

datatype exn = ValidationError string | ValueError string

fun str_of_exn :: "exn \<Rightarrow> string" where
  "str_of_exn (ValidationError msg) = msg"
| "str_of_exn (ValueError msg) = msg"

text \<open>\<open>str(n)\<close> for a length: the decimal digits of a natural number.\<close>

definition digit_char :: "nat \<Rightarrow> char" where
  "digit_char d = ''0123456789'' ! d"

fun str_nat :: "nat \<Rightarrow> string" where
  "str_nat n = (if n < 10 then [digit_char n] else str_nat (n div 10) @ [digit_char (n mod 10)])"

declare str_nat.simps [simp del]

subsection \<open>utils\<close>

definition validate_positive_float :: "real \<Rightarrow> string \<Rightarrow> exn + real" where
  "validate_positive_float v name =
     (if v \<le> 0 then Inl (ValidationError (name @ '' must be positive'')) else Inr v)"

definition validate_positive_list :: "real list \<Rightarrow> string \<Rightarrow> exn + real list" where
  "validate_positive_list vs name =
     (if \<exists>v\<in>set vs. v \<le> 0 then Inl (ValidationError (''All '' @ name @ '' must be positive''))
      else Inr vs)"

definition validate_matching_lengths :: "'a list \<Rightarrow> 'b list \<Rightarrow> string \<Rightarrow> string \<Rightarrow> exn + bool" where
  "validate_matching_lengths list1 list2 name1 name2 =
     (if length list1 \<noteq> length list2 then
        Inl (ValidationError
          (''Number of '' @ name1 @ '' ('' @ str_nat (length list1) @ '') must match number of '' @
           name2 @ '' ('' @ str_nat (length list2) @ '')''))
      else Inr True)"

subsection \<open>create_mesh\<close>

text \<open>
  The result dictionary. On a failed validation every entry of \<open>parameters\<close> is
  \<open>None\<close> and \<open>mesh_info\<close> is empty; both are \<open>None\<close> here.
\<close>

record mesh_parameters =
  p_ml :: real
  p_radius :: real
  p_layers :: "real list"
  p_subdivisions :: "int list"
  p_layer_names :: "string option list option"
  p_total_height :: real
  p_num_layers :: nat

record mesh_result =
  success :: bool
  geo_file :: "string option"
  msh_file :: "string option"
  error :: "string option"
  geo_size :: "nat option"
  msh_size :: "nat option"
  parameters :: "mesh_parameters option"
  mesh_info :: "mesh_stats option"

text \<open>The dictionary returned by the handler of the validation block.\<close>

definition validation_failure :: "exn \<Rightarrow> mesh_result" where
  "validation_failure e =
     \<lparr>success = False, geo_file = None, msh_file = None, error = Some (str_of_exn e),
      geo_size = None, msh_size = None, parameters = None, mesh_info = None\<rparr>"

text \<open>
  The validation block: the statements of the first \<open>try\<close> in order, the first raise
  ending the block. The three \<open>isinstance\<close> checks hold by the types of the model.
  The result is the subdivision list the rest of the function works with.
\<close>

definition validate_inputs ::
  "real \<Rightarrow> real \<Rightarrow> real list \<Rightarrow> int list option \<Rightarrow> string option list option \<Rightarrow> exn + int list"
where
  "validate_inputs ml radius layers subdivisions layer_names =
     (case validate_positive_float ml ''mesh length'' of
        Inl e \<Rightarrow> Inl e
      | Inr _ \<Rightarrow>
     (case validate_positive_float radius ''radius'' of
        Inl e \<Rightarrow> Inl e
      | Inr _ \<Rightarrow>
     (case validate_positive_list layers ''layer thicknesses'' of
        Inl e \<Rightarrow> Inl e
      | Inr _ \<Rightarrow>
     (case (case subdivisions of
              None \<Rightarrow> Inr (replicate (length layers) 1)
            | Some given \<Rightarrow>
                (case validate_matching_lengths given layers ''subdivisions'' ''layers'' of
                   Inl e \<Rightarrow> Inl e
                 | Inr _ \<Rightarrow> Inr given)) of
        Inl e \<Rightarrow> Inl e
      | Inr subs \<Rightarrow>
     (case layer_names of
        None \<Rightarrow> Inr subs
      | Some names \<Rightarrow>
          (case validate_matching_lengths names layers ''layer names'' ''layers'' of
             Inl e \<Rightarrow> Inl e
           | Inr _ \<Rightarrow> Inr subs))))))"

record run_options =
  output_name :: string
  gui_mode :: bool
  verbose :: bool
  geo_only :: bool

text \<open>
  \<open>create_mesh\<close>. Everything after the validation block (the geometry generator, the
  files written, the run of the mesh engine) belongs to modules and programs outside
  the files at hand; it is the parameter \<open>generate\<close>, which gets the validated
  arguments.
\<close>

type_synonym generation =
  "real \<Rightarrow> real \<Rightarrow> real list \<Rightarrow> int list \<Rightarrow> string option list option \<Rightarrow> run_options \<Rightarrow> mesh_result"

definition create_mesh ::
  "generation \<Rightarrow> real \<Rightarrow> real \<Rightarrow> real list \<Rightarrow> int list option \<Rightarrow> string option list option
     \<Rightarrow> run_options \<Rightarrow> mesh_result"
where
  "create_mesh generate ml radius layers subdivisions layer_names opts =
     (case validate_inputs ml radius layers subdivisions layer_names of
        Inl e \<Rightarrow> validation_failure e
      | Inr subs \<Rightarrow> generate ml radius layers subs layer_names opts)"

subsection \<open>MeshBuilder\<close>

record mesh_builder =
  b_radius :: "real option"
  b_ml :: "real option"
  b_layers :: "real list"
  b_subdivisions :: "int list"
  b_layer_names :: "string option list"
  b_options :: run_options

definition new_builder :: mesh_builder where
  "new_builder =
     \<lparr>b_radius = None, b_ml = None, b_layers = [], b_subdivisions = [], b_layer_names = [],
      b_options = \<lparr>output_name = ''mesh'', gui_mode = False, verbose = False, geo_only = False\<rparr>\<rparr>"

text \<open>The first argument of \<open>add_layer\<close>: a layer name (a \<open>str\<close>) or a thickness.\<close>

datatype layer_arg = Name string | Thickness real

text \<open>The loop \<open>while len(names) < n: names.append(None)\<close>.\<close>

function pad_names :: "string option list \<Rightarrow> nat \<Rightarrow> string option list" where
  "pad_names names n = (if length names < n then pad_names (names @ [None]) n else names)"
  by pat_completeness auto

termination
  by (relation "measure (\<lambda>(names, n). n - length names)") auto

declare pad_names.simps [simp del]

text \<open>
  \<open>add_layer\<close>. \<open>if name:\<close> holds for a name that is a non-empty string; only then
  is the list of names touched.
\<close>

definition add_layer :: "layer_arg \<Rightarrow> real option \<Rightarrow> int \<Rightarrow> mesh_builder \<Rightarrow> exn + mesh_builder" where
  "add_layer name_or_thickness thickness subdivisions b =
     (case (case name_or_thickness of
              Name s \<Rightarrow>
                (case thickness of
                   None \<Rightarrow> Inl (ValueError ''thickness required when providing layer name'')
                 | Some t \<Rightarrow> Inr (Some s, t))
            | Thickness t \<Rightarrow> Inr (None, t)) of
        Inl e \<Rightarrow> Inl e
      | Inr (name, thick) \<Rightarrow>
          (let layers = b_layers b @ [thick];
               subs = b_subdivisions b @ [subdivisions];
               names =
                 (if name \<noteq> None \<and> name \<noteq> Some [] then
                    pad_names (b_layer_names b) (length layers - 1) @ [name]
                  else b_layer_names b)
           in Inr (b\<lparr>b_layers := layers, b_subdivisions := subs, b_layer_names := names\<rparr>)))"

text \<open>\<open>any(names)\<close>: some entry is a non-empty string.\<close>

definition any_name :: "string option list \<Rightarrow> bool" where
  "any_name names = (\<exists>x\<in>set names. x \<noteq> None \<and> x \<noteq> Some [])"

text \<open>\<open>build\<close>: the three checks raise; otherwise the result is that of \<open>create_mesh\<close>.\<close>

definition build :: "generation \<Rightarrow> mesh_builder \<Rightarrow> exn + mesh_result" where
  "build generate b =
     (case b_radius b of
        None \<Rightarrow> Inl (ValueError ''Cylinder radius not set. Use .cylinder(radius)'')
      | Some radius \<Rightarrow>
     (case b_ml b of
        None \<Rightarrow> Inl (ValueError ''Mesh size not set. Use .mesh_size(ml)'')
      | Some ml \<Rightarrow>
          if b_layers b = [] then Inl (ValueError ''No layers defined. Use .add_layer()'')
          else
            (let layer_names = (if any_name (b_layer_names b) then Some (b_layer_names b) else None)
             in Inr (create_mesh generate ml radius (b_layers b) (Some (b_subdivisions b))
                       layer_names (b_options b)))))"

text \<open>The methods of the builder as calls, and a chain of calls from left to right.\<close>

datatype builder_call =
    Cylinder real
  | MeshSize real
  | AddLayer layer_arg "real option" int
  | Output string
  | Gui bool
  | Verbose bool
  | GeometryOnly bool

fun apply_call :: "builder_call \<Rightarrow> mesh_builder \<Rightarrow> exn + mesh_builder" where
  "apply_call (Cylinder radius) b = Inr (b\<lparr>b_radius := Some radius\<rparr>)"
| "apply_call (MeshSize ml) b = Inr (b\<lparr>b_ml := Some ml\<rparr>)"
| "apply_call (AddLayer a thickness subdivisions) b = add_layer a thickness subdivisions b"
| "apply_call (Output name) b = Inr (b\<lparr>b_options := (b_options b)\<lparr>output_name := name\<rparr>\<rparr>)"
| "apply_call (Gui enabled) b = Inr (b\<lparr>b_options := (b_options b)\<lparr>gui_mode := enabled\<rparr>\<rparr>)"
| "apply_call (Verbose enabled) b = Inr (b\<lparr>b_options := (b_options b)\<lparr>verbose := enabled\<rparr>\<rparr>)"
| "apply_call (GeometryOnly enabled) b = Inr (b\<lparr>b_options := (b_options b)\<lparr>geo_only := enabled\<rparr>\<rparr>)"

fun apply_calls :: "builder_call list \<Rightarrow> mesh_builder \<Rightarrow> exn + mesh_builder" where
  "apply_calls [] b = Inr b"
| "apply_calls (c # cs) b = (case apply_call c b of Inl e \<Rightarrow> Inl e | Inr b' \<Rightarrow> apply_calls cs b')"

text \<open>A call that adds a layer, and one that adds a layer under a non-empty name.\<close>

fun adds_layer :: "builder_call \<Rightarrow> bool" where
  "adds_layer (AddLayer a thickness subdivisions) = True"
| "adds_layer c = False"

fun names_layer :: "builder_call \<Rightarrow> bool" where
  "names_layer (AddLayer (Name s) thickness subdivisions) = (s \<noteq> [])"
| "names_layer c = False"

section \<open>The volume groups of the geometry script, from the spec\<close>

text \<open>
  The geometry generator (\<open>GeometryGenerator\<close>, module \<open>geometry\<close>) is imported by
  \<open>create_mesh\<close> but is not among the files at hand. What the claims say about the
  script it builds is settled against the definitions of this section, which follow
  sections 3 and 4.1 of the spec.
\<close>

text \<open>
  Modelled from the spec: the data model of section 3, which stands in for the
  arguments of the missing \<open>GeometryGenerator\<close>. A layer has a thickness, a subdivision
  count and an optional name; a stack has the mesh length, the radius and the layers
  from bottom to top.
\<close>

record layer =
  l_thickness :: real
  l_subdivisions :: int
  l_name :: "string option"

record layer_stack =
  s_ml :: real
  s_radius :: real
  s_layers :: "layer list"

text \<open>
  Modelled from the spec: the invariant of section 3 on the stack that the missing
  generator gets: at least one layer, positive radius, mesh length and thicknesses,
  subdivision counts of at least 1, and distinct names among the named layers.
\<close>

definition valid_stack :: "layer_stack \<Rightarrow> bool" where
  "valid_stack stack =
     (s_layers stack \<noteq> [] \<and> 0 < s_radius stack \<and> 0 < s_ml stack
      \<and> list_all (\<lambda>l. 0 < l_thickness l) (s_layers stack)
      \<and> list_all (\<lambda>l. 1 \<le> l_subdivisions l) (s_layers stack)
      \<and> distinct (List.map_filter l_name (s_layers stack)))"

text \<open>
  Modelled from the spec: a physical group of the script of the missing generator, by
  dimension (3 for a volume), tag and name.
\<close>

record physical_group =
  pg_dimension :: nat
  pg_tag :: nat
  pg_name :: string

text \<open>
  Modelled from the spec: step 3 of section 4.1, in place of the missing
  \<open>generate_geo_script\<close>. Each layer, in order, is registered as a volume under the
  next unused volume tag and under its name, or under \<open>Layer_<i+1>\<close> when it has none.
  \<open>next_tag\<close> is the next unused tag, \<open>i\<close> the index of the layer.
\<close>

fun register_volumes :: "nat \<Rightarrow> nat \<Rightarrow> layer list \<Rightarrow> physical_group list" where
  "register_volumes next_tag i [] = []"
| "register_volumes next_tag i (l # ls) =
     \<lparr>pg_dimension = 3, pg_tag = next_tag,
      pg_name = (case l_name l of Some given \<Rightarrow> given | None \<Rightarrow> ''Layer_'' @ str_nat (i + 1))\<rparr>
     # register_volumes (next_tag + 1) (i + 1) ls"

text \<open>
  Modelled from the spec: the volume groups \<open>build\<close> emits, in place of the missing
  \<open>generate_geo_script\<close>. Tags start at 1; a stack that violates the invariant gives
  no script (\<open>None\<close>, the configuration error).
\<close>

definition build_volume_groups :: "layer_stack \<Rightarrow> physical_group list option" where
  "build_volume_groups stack =
     (if valid_stack stack then Some (register_volumes 1 0 (s_layers stack)) else None)"

text \<open>The two scenarios of section 8 of the spec, as stacks.\<close>

definition named_stack :: layer_stack where
  "named_stack =
     \<lparr>s_ml = 3/2, s_radius = 8,
      s_layers =
        [\<lparr>l_thickness = 2, l_subdivisions = 2, l_name = Some ''Bottom''\<rparr>,
         \<lparr>l_thickness = 1, l_subdivisions = 1, l_name = Some ''Spacer''\<rparr>,
         \<lparr>l_thickness = 3, l_subdivisions = 2, l_name = Some ''Top''\<rparr>]\<rparr>"

definition anonymous_stack :: layer_stack where
  "anonymous_stack =
     \<lparr>s_ml = 2, s_radius = 10,
      s_layers =
        [\<lparr>l_thickness = 3, l_subdivisions = 1, l_name = None\<rparr>,
         \<lparr>l_thickness = 2, l_subdivisions = 1, l_name = None\<rparr>]\<rparr>"




section \<open>Shapes of artifact text, for stating the parser's properties\<close>








text \<open>
  \<open>line\<close> is the header line of the section \<open>marker\<close>: the first occurrence of the
  marker in the text is followed by whitespace up to a newline, then by \<open>line\<close>, which
  holds at least one field and no newline, then by a newline.
\<close>

definition header_line :: "string \<Rightarrow> string \<Rightarrow> string \<Rightarrow> bool" where
  "header_line marker content line =
     (\<exists>pre blank post.
        content = pre @ marker @ blank @ [nl] @ line @ [nl] @ post
        \<and> \<not> sublist marker (pre @ butlast marker)
        \<and> list_all is_space blank
        \<and> nl \<notin> set line
        \<and> py_split [] line \<noteq> [])"

text \<open>
  The total a header line announces, in the spec's words: its fourth
  whitespace-separated field as an integer, and 0 when there is no fourth field or it
  is not an integer literal.
\<close>

definition field_count :: "nat \<Rightarrow> string \<Rightarrow> int" where
  "field_count L line =
     (let fields = py_split [] line in
      if 4 \<le> length fields then (case py_int L (fields ! 3) of None \<Rightarrow> 0 | Some n \<Rightarrow> n)
      else 0)"

text \<open>
  The header the parser reads for a section: \<open>group(1)\<close> of the first match of
  \<open>\$<marker>\s*\n(.*?)\n\<close> in the text, when the pattern matches somewhere. Its fourth
  whitespace-separated field, when it has four. Whether that field starts with a minus
  sign.
\<close>

definition matched_header :: "string \<Rightarrow> string \<Rightarrow> string option" where
  "matched_header marker content = re_search (header_at marker) content"

definition fourth_field :: "string \<Rightarrow> string \<Rightarrow> string option" where
  "fourth_field marker content =
     (case matched_header marker content of
        None \<Rightarrow> None
      | Some h \<Rightarrow>
          (let fields = py_split [] h in
           if 4 \<le> length fields then Some (fields ! 3) else None))"

definition minus_field :: "string \<Rightarrow> string \<Rightarrow> bool" where
  "minus_field marker content =
     (case fourth_field marker content of None \<Rightarrow> False | Some f \<Rightarrow> prefix ''-'' f)"




section \<open>Notions for stating the properties of validation and builder\<close>

text \<open>
  The definitions of this section are not part of the program.
\<close>

text \<open>The message of \<open>validate_matching_lengths\<close> for layer names and layers.\<close>

definition length_mismatch :: "nat \<Rightarrow> nat \<Rightarrow> string" where
  "length_mismatch n_names n_layers =
     ''Number of layer names ('' @ str_nat n_names @ '') must match number of layers ('' @
     str_nat n_layers @ '')''"

text \<open>A chain of calls on a fresh builder, ended by \<open>build()\<close>.\<close>

definition run_builder :: "generation \<Rightarrow> builder_call list \<Rightarrow> exn + mesh_result" where
  "run_builder generate calls =
     (case apply_calls calls new_builder of Inl e \<Rightarrow> Inl e | Inr b \<Rightarrow> build generate b)"

text \<open>What holds of every builder a chain of calls has made.\<close>

definition builder_inv :: "mesh_builder \<Rightarrow> bool" where
  "builder_inv b =
     (length (b_subdivisions b) = length (b_layers b)
      \<and> length (b_layer_names b) \<le> length (b_layers b))"

text \<open>
  For concrete runs: options as \<open>MeshBuilder()\<close> sets them, and a generation step that
  succeeds on whatever it is given.
\<close>

definition default_options :: run_options where
  "default_options = \<lparr>output_name = ''mesh'', gui_mode = False, verbose = False, geo_only = False\<rparr>"

definition sample_generation :: generation where
  "sample_generation ml radius layers subs names opts =
     \<lparr>success = True, geo_file = Some (output_name opts @ ''.geo''), msh_file = None,
      error = None, geo_size = Some 0, msh_size = None,
      parameters = Some \<lparr>p_ml = ml, p_radius = radius, p_layers = layers, p_subdivisions = subs,
        p_layer_names = names, p_total_height = sum_list layers, p_num_layers = length layers\<rparr>,
      mesh_info = None\<rparr>"

section \<open>Facts about the matchers\<close>

lemma lit_Some_iff: "lit p s = Some r \<longleftrightarrow> s = p @ r"
  by (induction p s rule: lit.induct) auto

lemma lit_None_iff: "lit p s = None \<longleftrightarrow> \<not> prefix p s"
proof -
  have "lit p s \<noteq> None \<longleftrightarrow> prefix p s"
    by (auto simp: lit_Some_iff prefix_def)
  then show ?thesis by blast
qed

lemma lit_append: "lit p (p @ r) = Some r"
  by (simp add: lit_Some_iff)

lemma prefix_not_sublist_butlast:
  assumes "\<not> sublist p (pre @ butlast p)" "pre \<noteq> []"
  shows "\<not> prefix p (pre @ p @ rest)"
proof
  assume "prefix p (pre @ p @ rest)"
  then obtain z where z: "pre @ p @ rest = p @ z" by (auto simp: prefix_def)
  from assms(2) have "p \<noteq> []" using assms(1) by auto
  have "length p \<le> length (pre @ butlast p)" using assms(2) \<open>p \<noteq> []\<close>
    by (cases pre) auto
  moreover have "prefix (pre @ butlast p) (pre @ p @ rest)"
    using \<open>p \<noteq> []\<close> by (metis append_butlast_last_id append.assoc prefix_def same_prefix_prefix)
  ultimately have "prefix p (pre @ butlast p)"
    using \<open>prefix p (pre @ p @ rest)\<close> by (metis prefix_length_prefix)
  then show False using assms(1) by (auto dest: prefix_imp_sublist)
qed

lemma re_search_skip:
  assumes "\<And>s. \<not> prefix p s \<Longrightarrow> m s = None"
    and "\<not> sublist p (pre @ butlast p)"
  shows "re_search m (pre @ p @ rest) = re_search m (p @ rest)"
  using assms(2)
proof (induction pre)
  case Nil
  then show ?case by simp
next
  case (Cons c pre)
  have "\<not> prefix p ((c # pre) @ p @ rest)"
    using prefix_not_sublist_butlast[OF Cons.prems] by simp
  then have "m ((c # pre) @ p @ rest) = None" by (rule assms(1))
  moreover have "\<not> sublist p (pre @ butlast p)"
    using Cons.prems by (auto simp: sublist_Cons_right)
  ultimately show ?case using Cons.IH by simp
qed

lemma re_search_absent:
  assumes "\<And>s. \<not> prefix p s \<Longrightarrow> m s = None"
    and "\<not> sublist p s"
  shows "re_search m s = None"
  using assms(2)
proof (induction s)
  case Nil
  then show ?case using assms(1)[of "[]"] by (auto simp: prefix_def)
next
  case (Cons c s)
  then have "\<not> prefix p (c # s)" "\<not> sublist p s"
    by (auto simp: sublist_Cons_right dest: prefix_imp_sublist)
  then show ?case using Cons.IH assms(1) by simp
qed

lemma re_search_here: "m s = Some r \<Longrightarrow> re_search m s = Some r"
  by (cases s) auto

lemma nl_is_space: "is_space nl"
  by (simp add: is_space_def)

lemma ws_star_newline_none:
  assumes "\<forall>c\<in>set w. is_space c \<and> c \<noteq> nl" "t = [] \<or> \<not> is_space (hd t)"
  shows "ws_star (newline k) (w @ t) = None"
  using assms(1)
proof (induction w)
  case Nil
  show ?case
  proof (cases t)
    case Nil
    then show ?thesis by simp
  next
    case (Cons c cs)
    with assms(2) have "\<not> is_space c" by simp
    moreover from this have "c \<noteq> nl" using nl_is_space by auto
    ultimately show ?thesis using Cons by simp
  qed
next
  case (Cons c w)
  then show ?case by simp
qed

lemma ws_star_last_newline:
  assumes "\<forall>c\<in>set blank. is_space c"
    and "\<forall>c\<in>set w. is_space c \<and> c \<noteq> nl"
    and "t = [] \<or> \<not> is_space (hd t)"
    and "k (w @ t) = Some r"
  shows "ws_star (newline k) (blank @ nl # w @ t) = Some r"
  using assms(1)
proof (induction blank)
  case Nil
  have "ws_star (newline k) (w @ t) = None"
    by (rule ws_star_newline_none[OF assms(2,3)])
  then show ?case using assms(4) nl_is_space by simp
next
  case (Cons c blank)
  then show ?case by simp
qed


lemma lazy_group_line:
  assumes "nl \<notin> set line"
  shows "lazy_group False [nl] acc (line @ nl # post) = Some (acc @ line)"
  using assms by (induction line arbitrary: acc) auto

section \<open>Facts about splitting, stripping and integer literals\<close>


lemma py_split_spaces:
  "\<forall>c\<in>set sp. is_space c \<Longrightarrow> py_split [] (sp @ rest) = py_split [] rest"
  by (induction sp) auto



lemma py_split_trailing:
  "\<forall>c\<in>set sp. is_space c \<Longrightarrow> py_split cur (s @ sp) = py_split cur s"
proof (induction s arbitrary: cur)
  case Nil
  then show ?case by (induction sp arbitrary: cur) auto
next
  case (Cons c s)
  then show ?case by simp
qed

lemma rev_dropWhile_rev_decomp:
  "\<exists>sp. s = rev (dropWhile P (rev s)) @ sp \<and> (\<forall>c\<in>set sp. P c)"
proof -
  have "rev s = takeWhile P (rev s) @ dropWhile P (rev s)" by simp
  then have "s = rev (dropWhile P (rev s)) @ rev (takeWhile P (rev s))"
    by (metis rev_append rev_rev_ident)
  moreover have "\<forall>c\<in>set (rev (takeWhile P (rev s))). P c"
    by (auto dest: set_takeWhileD)
  ultimately show ?thesis by blast
qed

lemma py_split_strip_ws: "py_split [] (strip_ws s) = py_split [] s"
proof -
  let ?t = "dropWhile is_space s"
  obtain sp where sp: "?t = rev (dropWhile is_space (rev ?t)) @ sp" "\<forall>c\<in>set sp. is_space c"
    using rev_dropWhile_rev_decomp[of ?t is_space] by blast
  have "py_split [] (strip_ws s) = py_split [] (rev (dropWhile is_space (rev ?t)) @ sp)"
    using sp(2) by (simp add: strip_ws_def py_split_trailing)
  also have "\<dots> = py_split [] ?t" using sp(1) by simp
  also have "\<dots> = py_split [] (takeWhile is_space s @ ?t)"
    by (rule py_split_spaces[symmetric]) (auto dest: set_takeWhileD)
  finally show ?thesis by simp
qed









lemma header_total_Raised: "header_total L marker content = (Raised, v) \<Longrightarrow> v = None"
  by (auto simp: header_total_def Let_def split: option.splits if_splits)






















lemma length_strip_char: "length (strip_char q w) \<le> length w"
proof -
  have "length (dropWhile (\<lambda>c. c = q) (rev (dropWhile (\<lambda>c. c = q) w)))
      \<le> length (rev (dropWhile (\<lambda>c. c = q) w))"
    by (rule length_dropWhile_le)
  then have "length (strip_char q w) \<le> length (dropWhile (\<lambda>c. c = q) w)"
    unfolding strip_char_def by simp
  also have "\<dots> \<le> length w" by (rule length_dropWhile_le)
  finally show ?thesis .
qed

lemma header_at_none: "\<not> prefix marker s \<Longrightarrow> header_at marker s = None"
  by (simp add: header_at_def lit_None_iff[symmetric])

lemma header_search:
  assumes "header_line marker content line"
  shows "re_search (header_at marker) content = Some line"
proof -
  from assms obtain pre blank post where
    content: "content = pre @ marker @ blank @ [nl] @ line @ [nl] @ post"
    and first: "\<not> sublist marker (pre @ butlast marker)"
    and blank: "\<forall>c\<in>set blank. is_space c"
    and line: "nl \<notin> set line" "py_split [] line \<noteq> []"
    by (auto simp: header_line_def list_all_iff)
  let ?w = "takeWhile is_space line"
  let ?t = "dropWhile is_space line @ nl # post"
  have w: "\<forall>c\<in>set ?w. is_space c \<and> c \<noteq> nl"
    using line(1) by (auto dest: set_takeWhileD)
  have "dropWhile is_space line \<noteq> []"
  proof
    assume "dropWhile is_space line = []"
    then have "\<forall>c\<in>set line. is_space c" by (simp add: dropWhile_eq_Nil_conv)
    then have "py_split [] (line @ []) = py_split [] []" by (rule py_split_spaces)
    with line(2) show False by simp
  qed
  then have t: "?t = [] \<or> \<not> is_space (hd ?t)"
    using hd_dropWhile[of is_space line] by simp
  have e: "?w @ ?t = line @ nl # post"
    by (simp add: append_assoc[symmetric] del: append_assoc)
  have k: "lazy_group False [nl] [] (?w @ ?t) = Some line"
    unfolding e using lazy_group_line[OF line(1), of "[]" post] by simp
  have "ws_star (newline (lazy_group False [nl] [])) (blank @ nl # ?w @ ?t) = Some line"
    using blank w t k by (rule ws_star_last_newline)
  then have "ws_star (newline (lazy_group False [nl] [])) (blank @ nl # line @ nl # post) = Some line"
    unfolding e .
  then have "header_at marker (marker @ blank @ [nl] @ line @ [nl] @ post) = Some line"
    unfolding header_at_def lit_append by simp
  then have "re_search (header_at marker) (marker @ blank @ [nl] @ line @ [nl] @ post) = Some line"
    by (rule re_search_here)
  moreover have "re_search (header_at marker) (pre @ marker @ blank @ [nl] @ line @ [nl] @ post)
      = re_search (header_at marker) (marker @ blank @ [nl] @ line @ [nl] @ post)"
    using header_at_none first by (rule re_search_skip)
  ultimately show ?thesis by (simp add: content)
qed

lemma num_vertices_cases:
  "num_vertices (extract_mesh_statistics L (Some content)) =
     (case extract_physical_groups L content [] of
        (Raised, g) \<Rightarrow> 0
      | (Normal, g) \<Rightarrow> (case header_total L ''$Nodes'' content of (out, Some n) \<Rightarrow> n | (out, None) \<Rightarrow> 0))"
proof -
  obtain o1 g where p: "extract_physical_groups L content [] = (o1, g)" by fastforce
  obtain o2 v where n: "header_total L ''$Nodes'' content = (o2, v)" by fastforce
  obtain o3 e where el: "header_total L ''$Elements'' content = (o3, e)" by fastforce
  have "o2 = Raised \<Longrightarrow> v = None" using header_total_Raised n by blast
  then show ?thesis
    by (cases o1; cases o2; cases o3; cases v; cases e)
       (simp_all add: extract_mesh_statistics_def try_body_def default_stats_def p n el)
qed

lemma num_elements_cases:
  "num_elements (extract_mesh_statistics L (Some content)) =
     (case extract_physical_groups L content [] of
        (Raised, g) \<Rightarrow> 0
      | (Normal, g) \<Rightarrow>
          (case header_total L ''$Nodes'' content of
             (Raised, v) \<Rightarrow> 0
           | (Normal, v) \<Rightarrow>
               (case header_total L ''$Elements'' content of (out, Some n) \<Rightarrow> n | (out, None) \<Rightarrow> 0)))"
proof -
  obtain o1 g where p: "extract_physical_groups L content [] = (o1, g)" by fastforce
  obtain o2 v where n: "header_total L ''$Nodes'' content = (o2, v)" by fastforce
  obtain o3 e where el: "header_total L ''$Elements'' content = (o3, e)" by fastforce
  have "o3 = Raised \<Longrightarrow> e = None" using header_total_Raised el by blast
  then show ?thesis
    by (cases o1; cases o2; cases o3; cases v; cases e)
       (simp_all add: extract_mesh_statistics_def try_body_def default_stats_def p n el)
qed

lemma sample_nodes_header:
  "header_line ''$Nodes''
     ''$MeshFormat\<newline>4.1 0 8\<newline>$EndMeshFormat\<newline>$Nodes\<newline>1 2 3 27\<newline>$EndNodes\<newline>$Elements\<newline>1 2 3 40\<newline>$EndElements\<newline>''
     ''1 2 3 27''"
  unfolding header_line_def
  by (rule exI[of _ "''$MeshFormat\<newline>4.1 0 8\<newline>$EndMeshFormat\<newline>''"], rule exI[of _ "[]"],
      rule exI[of _ "''$EndNodes\<newline>$Elements\<newline>1 2 3 40\<newline>$EndElements\<newline>''"])
     (simp add: sublist_Cons_right is_space_def)

lemma sample_elements_header:
  "header_line ''$Elements''
     ''$MeshFormat\<newline>4.1 0 8\<newline>$EndMeshFormat\<newline>$Nodes\<newline>1 2 3 27\<newline>$EndNodes\<newline>$Elements\<newline>1 2 3 40\<newline>$EndElements\<newline>''
     ''1 2 3 40''"
  unfolding header_line_def
  by (rule exI[of _ "''$MeshFormat\<newline>4.1 0 8\<newline>$EndMeshFormat\<newline>$Nodes\<newline>1 2 3 27\<newline>$EndNodes\<newline>''"],
      rule exI[of _ "[]"], rule exI[of _ "''$EndElements\<newline>''"])
     (simp add: sublist_Cons_right is_space_def)

lemma header_total_fourth_field:
  "header_total L marker content =
     (case fourth_field marker content of
        None \<Rightarrow> (Normal, None)
      | Some f \<Rightarrow> (case py_int L f of None \<Rightarrow> (Raised, None) | Some n \<Rightarrow> (Normal, Some n)))"
  by (simp add: header_total_def fourth_field_def matched_header_def py_split_strip_ws Let_def
      split: option.splits)

lemma header_total_matched:
  "(case header_total L marker content of (out, Some n) \<Rightarrow> n | (out, None) \<Rightarrow> 0)
     = (case matched_header marker content of None \<Rightarrow> 0 | Some h \<Rightarrow> field_count L h)"
  by (simp add: header_total_def matched_header_def field_count_def py_split_strip_ws Let_def
      split: option.splits)

lemma header_total_raised_iff:
  "fst (header_total L marker content) = Raised
     \<longleftrightarrow> (\<exists>f. fourth_field marker content = Some f \<and> py_int L f = None)"
  by (auto simp: header_total_fourth_field split: option.splits)

lemma py_int_nonneg_unsigned:
  assumes "py_int L s = Some v" "\<not> prefix ''-'' s"
  shows "0 \<le> v"
  using assms by (cases s) (auto simp: py_int_def split: if_splits)

lemma header_total_nonneg_unsigned:
  assumes "header_total L marker content = (out, Some n)" "\<not> minus_field marker content"
  shows "0 \<le> n"
proof -
  from assms(1) obtain f where f: "fourth_field marker content = Some f" "py_int L f = Some n"
    by (auto simp: header_total_fourth_field split: option.splits)
  with assms(2) have "\<not> prefix ''-'' f" by (simp add: minus_field_def)
  with f(2) show ?thesis by (rule py_int_nonneg_unsigned)
qed











section \<open>Facts about validation, the builder and the volume groups\<close>

lemma pad_names_eq: "pad_names names n = names @ replicate (n - length names) None"
proof (induction names n rule: pad_names.induct)
  case (1 names n)
  show ?case
  proof (cases "length names < n")
    case True
    then have "n - length names = Suc (n - Suc (length names))" by simp
    then have "replicate (n - length names) None
        = (None :: string option) # replicate (n - Suc (length names)) None"
      by simp
    with True 1 show ?thesis by (subst pad_names.simps) simp
  next
    case False
    then show ?thesis by (subst pad_names.simps) simp
  qed
qed

lemma add_layer_unnamed:
  assumes "add_layer a thickness n b = Inr b'" "\<not> names_layer (AddLayer a thickness n)"
  shows "b_layer_names b' = b_layer_names b"
    and "length (b_layers b') = Suc (length (b_layers b))"
    and "length (b_subdivisions b') = Suc (length (b_subdivisions b))"
    and "b_radius b' = b_radius b" and "b_ml b' = b_ml b"
  using assms
  by (auto simp: add_layer_def Let_def split: layer_arg.splits option.splits)

lemma add_layer_named:
  assumes "add_layer (Name s) thickness n b = Inr b'" "s \<noteq> []"
  shows "b_layer_names b'
       = b_layer_names b @ replicate (length (b_layers b) - length (b_layer_names b)) None @ [Some s]"
    and "length (b_layers b') = Suc (length (b_layers b))"
    and "length (b_subdivisions b') = Suc (length (b_subdivisions b))"
    and "b_radius b' = b_radius b" and "b_ml b' = b_ml b"
  using assms
  by (auto simp: add_layer_def Let_def pad_names_eq split: option.splits)

lemma apply_call_inv:
  assumes "apply_call c b = Inr b'" "builder_inv b"
  shows "builder_inv b'"
proof (cases c)
  case (AddLayer a thickness n)
  show ?thesis
  proof (cases "names_layer (AddLayer a thickness n)")
    case True
    then obtain s where a: "a = Name s" "s \<noteq> []" by (cases a) auto
    from assms(1) AddLayer a have "add_layer (Name s) thickness n b = Inr b'" by simp
    from add_layer_named[OF this a(2)] assms(2) show ?thesis
      by (simp add: builder_inv_def)
  next
    case False
    from assms(1) AddLayer have "add_layer a thickness n b = Inr b'" by simp
    from add_layer_unnamed[OF this False] assms(2) show ?thesis
      by (simp add: builder_inv_def)
  qed
qed (use assms in \<open>auto simp: builder_inv_def\<close>)

lemma apply_calls_inv:
  "apply_calls cs b = Inr b' \<Longrightarrow> builder_inv b \<Longrightarrow> builder_inv b'"
proof (induction cs arbitrary: b)
  case Nil
  then show ?case by simp
next
  case (Cons c cs)
  then obtain b1 where "apply_call c b = Inr b1" "apply_calls cs b1 = Inr b'"
    by (auto split: sum.splits)
  with Cons show ?case using apply_call_inv by blast
qed

lemma new_builder_inv: "builder_inv new_builder"
  by (simp add: builder_inv_def new_builder_def)

lemma unnamed_calls:
  assumes "apply_calls cs b = Inr b'" "\<forall>c\<in>set cs. \<not> names_layer c"
  shows "b_layer_names b' = b_layer_names b
       \<and> length (b_layers b') = length (b_layers b) + length (filter adds_layer cs)"
  using assms
proof (induction cs arbitrary: b)
  case Nil
  then show ?case by simp
next
  case (Cons c cs)
  then obtain b1 where b1: "apply_call c b = Inr b1" "apply_calls cs b1 = Inr b'"
    by (auto split: sum.splits)
  have ih: "b_layer_names b' = b_layer_names b1
       \<and> length (b_layers b') = length (b_layers b1) + length (filter adds_layer cs)"
    using Cons.IH[OF b1(2)] Cons.prems(2) by simp
  have "b_layer_names b1 = b_layer_names b
       \<and> length (b_layers b1) = length (b_layers b) + (if adds_layer c then 1 else 0)"
  proof (cases c)
    case (AddLayer a thickness n)
    with b1(1) have "add_layer a thickness n b = Inr b1" by simp
    moreover have "\<not> names_layer (AddLayer a thickness n)" using Cons.prems(2) AddLayer by simp
    ultimately show ?thesis using add_layer_unnamed(1,2) AddLayer by simp
  qed (use b1(1) in auto)
  with ih show ?case by simp
qed

lemma apply_calls_eval:
  "apply_calls [Cylinder 10, MeshSize 2, AddLayer (Thickness 2) None 1] new_builder
     = Inr \<lparr>b_radius = Some 10, b_ml = Some 2, b_layers = [2], b_subdivisions = [1],
            b_layer_names = [], b_options = default_options\<rparr>"
  by (simp add: new_builder_def add_layer_def default_options_def)

lemma apply_calls_eval2:
  "apply_calls [AddLayer (Name ''Base'') (Some 2) 2, AddLayer (Thickness 3) None 1]
      \<lparr>b_radius = Some 10, b_ml = Some 2, b_layers = [2], b_subdivisions = [1],
       b_layer_names = [], b_options = default_options\<rparr>
     = Inr \<lparr>b_radius = Some 10, b_ml = Some 2, b_layers = [2, 2, 3], b_subdivisions = [1, 2, 1],
            b_layer_names = [None, Some ''Base''], b_options = default_options\<rparr>"
  by (simp add: add_layer_def pad_names_eq)

lemma register_volumes_length: "length (register_volumes t i ls) = length ls"
  by (induction ls arbitrary: t i) auto

lemma register_volumes_tags: "map pg_tag (register_volumes t i ls) = [t ..< t + length ls]"
  by (induction ls arbitrary: t i) (auto simp: upt_rec)

lemma register_volumes_dimension: "list_all (\<lambda>g. pg_dimension g = 3) (register_volumes t i ls)"
  by (induction ls arbitrary: t i) auto

lemma register_volumes_name:
  "k < length ls \<Longrightarrow>
     pg_name (register_volumes t i ls ! k)
       = (case l_name (ls ! k) of Some given \<Rightarrow> given | None \<Rightarrow> ''Layer_'' @ str_nat (i + k + 1))"
proof (induction ls arbitrary: t i k)
  case Nil
  then show ?case by simp
next
  case (Cons l ls)
  show ?case
  proof (cases k)
    case 0
    then show ?thesis by (simp split: option.splits)
  next
    case (Suc j)
    with Cons.prems have "j < length ls" by simp
    from Cons.IH[OF this, of "t + 1" "i + 1"] Suc show ?thesis by (simp split: option.splits)
  qed
qed

lemma validation_block_leaves_unchecked:
  "validate_inputs 2 10 [] None None = Inr []"
  "validate_inputs 2 10 [3] (Some [0]) None = Inr [0]"
  "validate_inputs 2 10 [3, 2] None (Some [Some ''A'', Some ''A'']) = Inr [1, 1]"
  by (simp_all add: validate_inputs_def validate_positive_float_def
      validate_positive_list_def validate_matching_lengths_def)

section \<open>Properties of the statistics parser\<close>

lemma default_stats_of_unreadable_file:
  "extract_mesh_statistics L None = default_stats"
  by (simp add: extract_mesh_statistics_def)

text \<open>
  Claim C1: on every parse failure the parser returns the all-default statistics,
  never a partially populated result. The comment in the handler says the same
  ("If parsing fails, return empty stats"), but the handler returns the dictionary the
  body was filling. In the text below the PhysicalNames section is read, then the
  fourth field \<open>x\<close> of the Nodes header makes \<open>int\<close> raise: the group that was
  stored stays in the result, and the Elements header is never looked at.
\<close>

theorem partial_stats_after_bad_nodes_header:
  "fst (try_body L
      (''$PhysicalNames\<newline>1\<newline>2 1 '' @ [dq] @ ''S'' @ [dq] @
       ''\<newline>$EndPhysicalNames\<newline>$Nodes\<newline>1 2 3 x\<newline>$EndNodes\<newline>$Elements\<newline>1 2 3 7\<newline>'')
      default_stats) = Raised
   \<and> extract_mesh_statistics L
      (Some (''$PhysicalNames\<newline>1\<newline>2 1 '' @ [dq] @ ''S'' @ [dq] @
       ''\<newline>$EndPhysicalNames\<newline>$Nodes\<newline>1 2 3 x\<newline>$EndNodes\<newline>$Elements\<newline>1 2 3 7\<newline>''))
     = \<lparr>physical_groups = [(''S'', \<lparr>dimension = 2, tag = 1\<rparr>)], num_vertices = 0, num_elements = 0\<rparr>"
  by (simp add: extract_mesh_statistics_def try_body_def extract_physical_groups_def
      physical_names_at_def header_total_def header_at_def strip_ws_def strip_char_def
      is_space_def isdigit_def is_digit_char_def py_int_def unsigned_value_def
      limit_exceeded_def is_ascii_digit_def digit_val_def default_stats_def upt_rec)




text \<open>
  Claim C5: \<open>num_vertices\<close> is the fourth field of the Nodes header line and
  \<open>num_elements\<close> the fourth field of the Elements header line; a count is 0 when
  its section is absent or its header has no fourth field that is an integer literal.
  For every artifact text: the three blocks run in one \<open>try\<close>, so
  \<open>num_vertices\<close> is 0 when the PhysicalNames block raised, and otherwise it is the
  total announced by the header that the pattern of the Nodes section matches (0 when
  it matches nowhere); \<open>num_elements\<close> is 0 when the PhysicalNames block raised or
  the fourth field of the Nodes header was not an integer literal, and otherwise the
  total announced by the header matched for the Elements section. The pattern matches
  nowhere when the marker is absent; when the first occurrence of the marker is
  followed by whitespace up to a newline and then by a line with a field that ends in
  a newline, that line is the header matched. The function is total: no exception
  reaches the caller.
\<close>

theorem header_counts:
  "num_vertices (extract_mesh_statistics L (Some content))
     = (if fst (extract_physical_groups L content []) = Raised then 0
        else (case matched_header ''$Nodes'' content of
                None \<Rightarrow> 0
              | Some h \<Rightarrow> field_count L h))
   \<and> num_elements (extract_mesh_statistics L (Some content))
     = (if fst (extract_physical_groups L content []) = Raised
           \<or> (\<exists>f. fourth_field ''$Nodes'' content = Some f \<and> py_int L f = None)
        then 0
        else (case matched_header ''$Elements'' content of
                None \<Rightarrow> 0
              | Some h \<Rightarrow> field_count L h))
   \<and> (\<not> sublist marker content \<longrightarrow> matched_header marker content = None)
   \<and> (header_line marker content line \<longrightarrow> matched_header marker content = Some line)"
proof (intro conjI impI)
  show "num_vertices (extract_mesh_statistics L (Some content))
     = (if fst (extract_physical_groups L content []) = Raised then 0
        else (case matched_header ''$Nodes'' content of
                None \<Rightarrow> 0
              | Some h \<Rightarrow> field_count L h))"
    unfolding header_total_matched[symmetric]
    by (cases "extract_physical_groups L content []")
       (auto simp: num_vertices_cases split: outcome.splits)
next
  have r: "fst (header_total L ''$Nodes'' content) = Raised
     \<longleftrightarrow> (\<exists>f. fourth_field ''$Nodes'' content = Some f \<and> py_int L f = None)"
    by (rule header_total_raised_iff)
  show "num_elements (extract_mesh_statistics L (Some content))
     = (if fst (extract_physical_groups L content []) = Raised
           \<or> (\<exists>f. fourth_field ''$Nodes'' content = Some f \<and> py_int L f = None)
        then 0
        else (case matched_header ''$Elements'' content of
                None \<Rightarrow> 0
              | Some h \<Rightarrow> field_count L h))"
    unfolding header_total_matched[symmetric] r[symmetric]
    by (cases "extract_physical_groups L content []"; cases "header_total L ''$Nodes'' content")
       (auto simp: num_elements_cases split: outcome.splits)
next
  assume "\<not> sublist marker content"
  with header_at_none show "matched_header marker content = None"
    unfolding matched_header_def by (rule re_search_absent)
next
  assume "header_line marker content line"
  then show "matched_header marker content = Some line"
    unfolding matched_header_def by (rule header_search)
qed

text \<open>
  Four texts: one without sections, one with both, one whose header line is the last
  line and has no newline after it (nothing is matched), and one whose first marker is
  followed by other text on its line (the second marker is matched).
\<close>

theorem header_counts_witness:
  "\<not> sublist ''$Nodes'' ''$MeshFormat\<newline>4.1 0 8\<newline>$EndMeshFormat\<newline>''
   \<and> matched_header ''$Nodes'' ''$MeshFormat\<newline>4.1 0 8\<newline>$EndMeshFormat\<newline>'' = None
   \<and> num_vertices (extract_mesh_statistics 4300 (Some ''$MeshFormat\<newline>4.1 0 8\<newline>$EndMeshFormat\<newline>'')) = 0
   \<and> header_line ''$Nodes''
        ''$MeshFormat\<newline>4.1 0 8\<newline>$EndMeshFormat\<newline>$Nodes\<newline>1 2 3 27\<newline>$EndNodes\<newline>$Elements\<newline>1 2 3 40\<newline>$EndElements\<newline>''
        ''1 2 3 27''
   \<and> header_line ''$Elements''
        ''$MeshFormat\<newline>4.1 0 8\<newline>$EndMeshFormat\<newline>$Nodes\<newline>1 2 3 27\<newline>$EndNodes\<newline>$Elements\<newline>1 2 3 40\<newline>$EndElements\<newline>''
        ''1 2 3 40''
   \<and> num_vertices (extract_mesh_statistics 4300 (Some
        ''$MeshFormat\<newline>4.1 0 8\<newline>$EndMeshFormat\<newline>$Nodes\<newline>1 2 3 27\<newline>$EndNodes\<newline>$Elements\<newline>1 2 3 40\<newline>$EndElements\<newline>'')) = 27
   \<and> num_elements (extract_mesh_statistics 4300 (Some
        ''$MeshFormat\<newline>4.1 0 8\<newline>$EndMeshFormat\<newline>$Nodes\<newline>1 2 3 27\<newline>$EndNodes\<newline>$Elements\<newline>1 2 3 40\<newline>$EndElements\<newline>'')) = 40
   \<and> matched_header ''$Nodes'' ''$Nodes\<newline>1 2 3 27'' = None
   \<and> num_vertices (extract_mesh_statistics 4300 (Some ''$Nodes\<newline>1 2 3 27'')) = 0
   \<and> matched_header ''$Nodes'' ''$Nodes 5\<newline>1 2 3 27\<newline>$Nodes\<newline>9 9 9 9\<newline>'' = Some ''9 9 9 9''
   \<and> num_vertices (extract_mesh_statistics 4300
        (Some ''$Nodes 5\<newline>1 2 3 27\<newline>$Nodes\<newline>9 9 9 9\<newline>'')) = 9"
proof -
  let ?A = "''$MeshFormat\<newline>4.1 0 8\<newline>$EndMeshFormat\<newline>''"
  let ?B = "''$MeshFormat\<newline>4.1 0 8\<newline>$EndMeshFormat\<newline>$Nodes\<newline>1 2 3 27\<newline>$EndNodes\<newline>$Elements\<newline>1 2 3 40\<newline>$EndElements\<newline>''"
  let ?C = "''$Nodes\<newline>1 2 3 27''"
  let ?D = "''$Nodes 5\<newline>1 2 3 27\<newline>$Nodes\<newline>9 9 9 9\<newline>''"
  have 1: "\<not> sublist ''$Nodes'' ?A" by (simp add: sublist_Cons_right)
  note 2 = sample_nodes_header
  note 3 = sample_elements_header
  have pA: "fst (extract_physical_groups 4300 ?A []) \<noteq> Raised" by code_simp
  have pB: "fst (extract_physical_groups 4300 ?B []) \<noteq> Raised" by code_simp
  have pC: "fst (extract_physical_groups 4300 ?C []) \<noteq> Raised" by code_simp
  have pD: "fst (extract_physical_groups 4300 ?D []) \<noteq> Raised" by code_simp
  have nB: "\<not> (\<exists>f. fourth_field ''$Nodes'' ?B = Some f \<and> py_int 4300 f = None)"
  proof -
    have "fourth_field ''$Nodes'' ?B = Some ''27''" by code_simp
    moreover have "py_int 4300 ''27'' = Some 27" by code_simp
    ultimately show ?thesis by simp
  qed
  have f27: "field_count 4300 ''1 2 3 27'' = 27" by code_simp
  have f40: "field_count 4300 ''1 2 3 40'' = 40" by code_simp
  have f9: "field_count 4300 ''9 9 9 9'' = 9" by code_simp
  note a = header_counts[where content = ?A and L = 4300 and marker = "''$Nodes''"]
  note bn = header_counts[where content = ?B and L = 4300 and marker = "''$Nodes''"
      and line = "''1 2 3 27''"]
  note be = header_counts[where content = ?B and L = 4300 and marker = "''$Elements''"
      and line = "''1 2 3 40''"]
  note c = header_counts[where content = ?C and L = 4300]
  note d = header_counts[where content = ?D and L = 4300]
  have mA: "matched_header ''$Nodes'' ?A = None" using a 1 by blast
  have vA: "num_vertices (extract_mesh_statistics 4300 (Some ?A)) = 0"
    using a[THEN conjunct1] by (simp add: pA mA)
  have mBn: "matched_header ''$Nodes'' ?B = Some ''1 2 3 27''" using bn 2 by blast
  have mBe: "matched_header ''$Elements'' ?B = Some ''1 2 3 40''" using be 3 by blast
  have vB: "num_vertices (extract_mesh_statistics 4300 (Some ?B)) = 27"
    using bn[THEN conjunct1] by (simp add: pB mBn f27)
  have eB: "num_elements (extract_mesh_statistics 4300 (Some ?B)) = 40"
    using be[THEN conjunct2, THEN conjunct1] nB by (simp add: pB mBe f40)
  have mC: "matched_header ''$Nodes'' ?C = None" by code_simp
  have vC: "num_vertices (extract_mesh_statistics 4300 (Some ?C)) = 0"
    using c[THEN conjunct1] by (simp add: pC mC)
  have mD: "matched_header ''$Nodes'' ?D = Some ''9 9 9 9''" by code_simp
  have vD: "num_vertices (extract_mesh_statistics 4300 (Some ?D)) = 9"
    using d[THEN conjunct1] by (simp add: pD mD f9)
  show ?thesis by (intro conjI 1 2 3 mA vA vB eB mC vC mD vD)
qed

text \<open>
  The claim as stated fails: after a PhysicalNames record whose dimension is not a
  number, the vertex count stays 0 although the Nodes header announces 27.
\<close>

theorem vertex_count_lost_after_bad_record:
  "header_line ''$Nodes''
     (''$PhysicalNames\<newline>1\<newline>x 1 '' @ [dq] @ ''S'' @ [dq] @
      ''\<newline>$EndPhysicalNames\<newline>$Nodes\<newline>1 2 3 27\<newline>$EndNodes\<newline>'')
     ''1 2 3 27''
   \<and> field_count 4300 ''1 2 3 27'' = 27
   \<and> num_vertices (extract_mesh_statistics 4300
       (Some (''$PhysicalNames\<newline>1\<newline>x 1 '' @ [dq] @ ''S'' @ [dq] @
              ''\<newline>$EndPhysicalNames\<newline>$Nodes\<newline>1 2 3 27\<newline>$EndNodes\<newline>''))) = 0"
proof (intro conjI)
  show "header_line ''$Nodes''
     (''$PhysicalNames\<newline>1\<newline>x 1 '' @ [dq] @ ''S'' @ [dq] @
      ''\<newline>$EndPhysicalNames\<newline>$Nodes\<newline>1 2 3 27\<newline>$EndNodes\<newline>'')
     ''1 2 3 27''"
    unfolding header_line_def
    by (rule exI[of _ "''$PhysicalNames\<newline>1\<newline>x 1 '' @ [dq] @ ''S'' @ [dq] @ ''\<newline>$EndPhysicalNames\<newline>''"],
        rule exI[of _ "[]"], rule exI[of _ "''$EndNodes\<newline>''"])
       (simp add: sublist_Cons_right is_space_def)
  show "field_count 4300 ''1 2 3 27'' = 27" by code_simp
  show "num_vertices (extract_mesh_statistics 4300
       (Some (''$PhysicalNames\<newline>1\<newline>x 1 '' @ [dq] @ ''S'' @ [dq] @
              ''\<newline>$EndPhysicalNames\<newline>$Nodes\<newline>1 2 3 27\<newline>$EndNodes\<newline>''))) = 0"
    by code_simp
qed

text \<open>
  Claim C8: the statistics returned for an artifact text have non-negative
  \<open>num_vertices\<close> and \<open>num_elements\<close>. A count is whatever \<open>int\<close> makes of the
  fourth field of the header that is matched, sign included. So for every artifact
  text a count is non-negative unless that field of its header starts with a minus
  sign; minus signs anywhere else in the text do not matter.
\<close>

theorem counts_nonneg_unless_signed:
  "(\<not> minus_field ''$Nodes'' content \<longrightarrow>
      0 \<le> num_vertices (extract_mesh_statistics L (Some content)))
   \<and> (\<not> minus_field ''$Elements'' content \<longrightarrow>
      0 \<le> num_elements (extract_mesh_statistics L (Some content)))"
proof (intro conjI impI)
  assume a: "\<not> minus_field ''$Nodes'' content"
  show "0 \<le> num_vertices (extract_mesh_statistics L (Some content))"
    using header_total_nonneg_unsigned[OF _ a]
    by (auto simp: num_vertices_cases split: prod.splits outcome.splits option.splits)
next
  assume a: "\<not> minus_field ''$Elements'' content"
  show "0 \<le> num_elements (extract_mesh_statistics L (Some content))"
    using header_total_nonneg_unsigned[OF _ a]
    by (auto simp: num_elements_cases split: prod.splits outcome.splits option.splits)
qed

text \<open>A text with a negative coordinate among its nodes: the counts are 27 and 40.\<close>

theorem counts_nonneg_witness:
  "\<not> minus_field ''$Nodes''
       ''$Nodes\<newline>1 2 3 27\<newline>1 -1.5 0 2\<newline>$EndNodes\<newline>$Elements\<newline>1 2 3 40\<newline>''
   \<and> \<not> minus_field ''$Elements''
       ''$Nodes\<newline>1 2 3 27\<newline>1 -1.5 0 2\<newline>$EndNodes\<newline>$Elements\<newline>1 2 3 40\<newline>''
   \<and> num_vertices (extract_mesh_statistics 4300
         (Some ''$Nodes\<newline>1 2 3 27\<newline>1 -1.5 0 2\<newline>$EndNodes\<newline>$Elements\<newline>1 2 3 40\<newline>'')) = 27
   \<and> num_elements (extract_mesh_statistics 4300
         (Some ''$Nodes\<newline>1 2 3 27\<newline>1 -1.5 0 2\<newline>$EndNodes\<newline>$Elements\<newline>1 2 3 40\<newline>'')) = 40
   \<and> 0 \<le> num_vertices (extract_mesh_statistics 4300
         (Some ''$Nodes\<newline>1 2 3 27\<newline>1 -1.5 0 2\<newline>$EndNodes\<newline>$Elements\<newline>1 2 3 40\<newline>''))
   \<and> 0 \<le> num_elements (extract_mesh_statistics 4300
         (Some ''$Nodes\<newline>1 2 3 27\<newline>1 -1.5 0 2\<newline>$EndNodes\<newline>$Elements\<newline>1 2 3 40\<newline>''))"
proof -
  let ?c = "''$Nodes\<newline>1 2 3 27\<newline>1 -1.5 0 2\<newline>$EndNodes\<newline>$Elements\<newline>1 2 3 40\<newline>''"
  have 1: "\<not> minus_field ''$Nodes'' ?c" by code_simp
  have 2: "\<not> minus_field ''$Elements'' ?c" by code_simp
  have 3: "num_vertices (extract_mesh_statistics 4300 (Some ?c)) = 27" by code_simp
  have 4: "num_elements (extract_mesh_statistics 4300 (Some ?c)) = 40" by code_simp
  from counts_nonneg_unless_signed[of ?c 4300] 1 2
  have 5: "0 \<le> num_vertices (extract_mesh_statistics 4300 (Some ?c))"
    and 6: "0 \<le> num_elements (extract_mesh_statistics 4300 (Some ?c))"
    by blast+
  show ?thesis by (intro conjI 1 2 3 4 5 6)
qed

text \<open>
  The claim as stated fails: a header whose fourth field is \<open>-5\<close> gives a negative
  vertex count.
\<close>

theorem negative_vertex_count:
  "minus_field ''$Nodes'' ''$Nodes\<newline>1 2 3 -5\<newline>''
   \<and> num_vertices (extract_mesh_statistics 4300 (Some ''$Nodes\<newline>1 2 3 -5\<newline>'')) < 0"
  by code_simp




section \<open>Properties of validation, builder and volume groups\<close>

text \<open>
  Claim C2 (settled against the definitions modelled from the spec): for every valid
  stack with N layers, \<open>build\<close> emits exactly N volume groups, of dimension 3, whose
  tags are 1..N in layer order, and the i-th volume is named after the i-th layer, or
  \<open>Layer_<i+1>\<close> when that layer has no name.
\<close>

theorem volume_groups_of_valid_stack:
  assumes "valid_stack stack"
  shows "\<exists>groups. build_volume_groups stack = Some groups
       \<and> length groups = length (s_layers stack)
       \<and> map pg_tag groups = [1 ..< Suc (length (s_layers stack))]
       \<and> list_all (\<lambda>g. pg_dimension g = 3) groups
       \<and> (\<forall>i<length (s_layers stack).
            pg_name (groups ! i)
              = (case l_name (s_layers stack ! i) of
                   Some given \<Rightarrow> given
                 | None \<Rightarrow> ''Layer_'' @ str_nat (i + 1)))"
  using assms register_volumes_name[of _ "s_layers stack" 1 0]
  by (simp add: build_volume_groups_def register_volumes_length register_volumes_tags
      register_volumes_dimension split: option.splits)

text \<open>The two scenarios of the spec: three named layers, and two layers without names.\<close>

theorem volume_groups_witness:
  "valid_stack named_stack
   \<and> build_volume_groups named_stack
       = Some [\<lparr>pg_dimension = 3, pg_tag = 1, pg_name = ''Bottom''\<rparr>,
               \<lparr>pg_dimension = 3, pg_tag = 2, pg_name = ''Spacer''\<rparr>,
               \<lparr>pg_dimension = 3, pg_tag = 3, pg_name = ''Top''\<rparr>]
   \<and> valid_stack anonymous_stack
   \<and> build_volume_groups anonymous_stack
       = Some [\<lparr>pg_dimension = 3, pg_tag = 1, pg_name = ''Layer_1''\<rparr>,
               \<lparr>pg_dimension = 3, pg_tag = 2, pg_name = ''Layer_2''\<rparr>]"
proof -
  have v1: "valid_stack named_stack"
    by (simp add: valid_stack_def named_stack_def List.map_filter_simps)
  have v2: "valid_stack anonymous_stack"
    by (simp add: valid_stack_def anonymous_stack_def List.map_filter_simps)
  from volume_groups_of_valid_stack[OF v1] obtain g1 where
    g1: "build_volume_groups named_stack = Some g1" by blast
  from volume_groups_of_valid_stack[OF v2] obtain g2 where
    g2: "build_volume_groups anonymous_stack = Some g2" by blast
  have e1: "build_volume_groups named_stack
       = Some [\<lparr>pg_dimension = 3, pg_tag = 1, pg_name = ''Bottom''\<rparr>,
               \<lparr>pg_dimension = 3, pg_tag = 2, pg_name = ''Spacer''\<rparr>,
               \<lparr>pg_dimension = 3, pg_tag = 3, pg_name = ''Top''\<rparr>]"
    using g1 by (simp add: build_volume_groups_def named_stack_def v1[unfolded named_stack_def]
        eval_nat_numeral)
  have e2: "build_volume_groups anonymous_stack
       = Some [\<lparr>pg_dimension = 3, pg_tag = 1, pg_name = ''Layer_1''\<rparr>,
               \<lparr>pg_dimension = 3, pg_tag = 2, pg_name = ''Layer_2''\<rparr>]"
    using g2 by (simp add: build_volume_groups_def anonymous_stack_def v2[unfolded anonymous_stack_def]
        str_nat.simps digit_char_def eval_nat_numeral)
  show ?thesis by (intro conjI v1 v2 e1 e2)
qed





text \<open>
  Claim C9: when a named layer is added to a builder and unnamed layers follow, the
  list of names is shorter than the list of layers and \<open>build()\<close> returns the failure
  result with the length-mismatch message. This holds when the layer under a non-empty
  name \<open>s\<close> is the last named one (\<open>cs2\<close>, the calls after it, name no layer but add
  at least one), and the mesh length, the radius and the thicknesses are positive.
  The names then end with \<open>s\<close>, before which one \<open>None\<close> stands for each unnamed layer
  added since the names were last extended.
\<close>

theorem trailing_unnamed_layers_rejected:
  assumes before: "apply_calls cs1 new_builder = Inr b1"
    and after: "apply_calls (AddLayer (Name s) thickness n # cs2) b1 = Inr b"
    and named: "s \<noteq> []"
    and unnamed: "\<forall>c\<in>set cs2. \<not> names_layer c"
    and added: "\<exists>c\<in>set cs2. adds_layer c"
    and set: "b_radius b = Some radius" "b_ml b = Some ml"
    and positive: "0 < ml" "0 < radius" "\<forall>t\<in>set (b_layers b). 0 < t"
  shows "b_layer_names b
           = b_layer_names b1
             @ replicate (length (b_layers b1) - length (b_layer_names b1)) None @ [Some s]
       \<and> length (b_layer_names b) < length (b_layers b)
       \<and> build generate b
           = Inr (validation_failure (ValidationError
               (length_mismatch (length (b_layer_names b)) (length (b_layers b)))))"
proof -
  have inv1: "builder_inv b1" using before new_builder_inv by (rule apply_calls_inv)
  from after obtain b2 where
    b2: "add_layer (Name s) thickness n b1 = Inr b2" and rest: "apply_calls cs2 b2 = Inr b"
    by (auto split: sum.splits)
  note nm = add_layer_named[OF b2 named]
  from unnamed_calls[OF rest unnamed]
  have same: "b_layer_names b = b_layer_names b2"
    and len: "length (b_layers b) = length (b_layers b2) + length (filter adds_layer cs2)"
    by simp_all
  have names: "b_layer_names b
      = b_layer_names b1
        @ replicate (length (b_layers b1) - length (b_layer_names b1)) None @ [Some s]"
    using same nm(1) by simp
  have "length (b_layer_names b2) = length (b_layers b2)"
    using nm(1,2) inv1 by (simp add: builder_inv_def)
  moreover have "0 < length (filter adds_layer cs2)"
    using added by (simp add: filter_empty_conv)
  ultimately have shorter: "length (b_layer_names b) < length (b_layers b)"
    using same len by simp
  have inv: "builder_inv b"
    using after inv1 by (rule apply_calls_inv)
  then have subs: "length (b_subdivisions b) = length (b_layers b)"
    by (simp add: builder_inv_def)
  have any: "any_name (b_layer_names b)"
    unfolding names any_name_def using named by auto
  have nonempty: "b_layers b \<noteq> []" using shorter by auto
  have "validate_inputs ml radius (b_layers b) (Some (b_subdivisions b)) (Some (b_layer_names b))
      = Inl (ValidationError (length_mismatch (length (b_layer_names b)) (length (b_layers b))))"
    using positive subs shorter
    by (auto simp: validate_inputs_def validate_positive_float_def validate_positive_list_def
        validate_matching_lengths_def length_mismatch_def not_le)
  then have "build generate b
      = Inr (validation_failure (ValidationError
          (length_mismatch (length (b_layer_names b)) (length (b_layers b)))))"
    using set any nonempty by (simp add: build_def create_mesh_def)
  with names shorter show ?thesis by blast
qed

theorem trailing_unnamed_layers_witness:
  "apply_calls [Cylinder 10, MeshSize 2, AddLayer (Thickness 2) None 1] new_builder
     = Inr \<lparr>b_radius = Some 10, b_ml = Some 2, b_layers = [2], b_subdivisions = [1],
            b_layer_names = [], b_options = default_options\<rparr>
   \<and> apply_calls [AddLayer (Name ''Base'') (Some 2) 2, AddLayer (Thickness 3) None 1]
      \<lparr>b_radius = Some 10, b_ml = Some 2, b_layers = [2], b_subdivisions = [1],
       b_layer_names = [], b_options = default_options\<rparr>
     = Inr \<lparr>b_radius = Some 10, b_ml = Some 2, b_layers = [2, 2, 3], b_subdivisions = [1, 2, 1],
            b_layer_names = [None, Some ''Base''], b_options = default_options\<rparr>
   \<and> build sample_generation
        \<lparr>b_radius = Some 10, b_ml = Some 2, b_layers = [2, 2, 3], b_subdivisions = [1, 2, 1],
         b_layer_names = [None, Some ''Base''], b_options = default_options\<rparr>
     = Inr (validation_failure (ValidationError
         ''Number of layer names (2) must match number of layers (3)''))"
proof -
  let ?b1 = "\<lparr>b_radius = Some 10, b_ml = Some 2, b_layers = [2], b_subdivisions = [1],
            b_layer_names = [], b_options = default_options\<rparr>"
  let ?b = "\<lparr>b_radius = Some 10, b_ml = Some 2, b_layers = [2, 2, 3], b_subdivisions = [1, 2, 1],
            b_layer_names = [None, Some ''Base''], b_options = default_options\<rparr>"
  have m: "length_mismatch (length (b_layer_names ?b)) (length (b_layers ?b))
      = ''Number of layer names (2) must match number of layers (3)''"
    by (simp add: length_mismatch_def str_nat.simps digit_char_def)
  have "build sample_generation ?b
      = Inr (validation_failure (ValidationError
          (length_mismatch (length (b_layer_names ?b)) (length (b_layers ?b)))))"
    using trailing_unnamed_layers_rejected[OF apply_calls_eval apply_calls_eval2,
        of 10 2 sample_generation]
    by simp
  then have "build sample_generation ?b
      = Inr (validation_failure (ValidationError
          ''Number of layer names (2) must match number of layers (3)''))"
    unfolding m .
  then show ?thesis by (intro conjI apply_calls_eval apply_calls_eval2)
qed

text \<open>
  The claim as stated fails twice. A named layer, an unnamed one, then a named one:
  the names are padded to the length of the layers, the validation passes and the
  stack goes on to the generation step. A negative mesh length: the build fails, but
  with the message of the mesh length.
\<close>

theorem named_then_unnamed_not_always_rejected:
  "run_builder sample_generation
     [Cylinder 10, MeshSize 2, AddLayer (Name ''A'') (Some 1) 1, AddLayer (Thickness 1) None 1,
      AddLayer (Name ''B'') (Some 1) 1]
     = Inr (sample_generation 2 10 [1, 1, 1] [1, 1, 1] (Some [Some ''A'', None, Some ''B''])
              default_options)
   \<and> run_builder sample_generation
     [Cylinder 10, MeshSize (- 2), AddLayer (Name ''A'') (Some 1) 1, AddLayer (Thickness 1) None 1]
     = Inr (validation_failure (ValidationError ''mesh length must be positive''))"
  by (simp add: run_builder_def new_builder_def add_layer_def pad_names_eq build_def
      any_name_def create_mesh_def validate_inputs_def validate_positive_float_def
      validate_positive_list_def validate_matching_lengths_def default_options_def
      sample_generation_def)

end
